theory Spec2Isabelle
  imports Complex_Main "HOL-Library.Sublist"
begin

section \<open>Newton-Raphson square-root solver (ApplicationActivity.py)\<close>

text \<open>
  The program is one function, \<open>newton_raphson_interactive\<close> (the spec's \<open>solve\<close>), and
  a driver that calls it on four fixed problems and ignores what it returns.

  Python's \<open>float\<close> is embedded as \<open>real\<close>: arithmetic is exact, so rounding, overflow,
  infinities and NaN are outside the model. Every other feature of the loop is kept:
  the index range, the derivative guard and its \<open>break\<close>, the division (which raises
  \<open>ZeroDivisionError\<close> on a zero divisor), the appended dictionaries, the convergence
  test and its \<open>break\<close>, the printed lines and the traces added to the figure.
\<close>

subsection \<open>Data\<close>

datatype error = ZeroDivisionError

text \<open>One appended dictionary \<open>{'Iter', 'x_curr', 'f(x)', 'Error'}\<close>, a row of the data frame.\<close>

record row =
  col_Iter :: int
  col_x_curr :: real
  col_fx :: real
  col_Error :: real

text \<open>
  The lines printed to standard output, by the values they format: the banner
  (\<open>target_val\<close>, \<open>x0\<close>), the column header, one line per appended row, and the
  convergence message.
\<close>

datatype line =
    Banner real real
  | Header
  | Row int real real real
  | ConvergedTo real

text \<open>
  The traces of the figure: the parabola of \<open>f\<close> sampled over \<open>[0, x0 + 2]\<close> (given by
  \<open>target_val\<close> and \<open>x0\<close>), the horizontal axis line, and for each completed pass the
  tangent segment from \<open>(x_curr, fx)\<close> to \<open>(x_next, 0)\<close> and the start marker.
\<close>

datatype trace =
    Parabola real real
  | HLine
  | Tangent int real real real
  | Start int real real

text \<open>A figure as it is shown: its traces and the \<open>x_curr\<close> its title reports.\<close>

record figure =
  traces :: "trace list"
  final_root :: real

text \<open>The process-wide output: the console and the figures shown so far.\<close>

record world =
  console :: "line list"
  shown :: "figure list"

text \<open>The local variables of one call that the loop reads and writes.\<close>

record frame =
  iterations :: "row list"
  x_curr :: real
  fig :: "trace list"
  out :: "line list"

text \<open>How the loop was left: by the guard's \<open>break\<close>, by the convergence \<open>break\<close>, or by
  running out of indices.\<close>

datatype stop = Singular | Converged | Exhausted

subsection \<open>Operations\<close>

definition f :: "real \<Rightarrow> real \<Rightarrow> real" where
  "f target_val x = x ^ 2 - target_val"

definition df :: "real \<Rightarrow> real" where
  "df x = 2 * x"

text \<open>Python's \<open>/\<close> on floats.\<close>

definition truediv :: "real \<Rightarrow> real \<Rightarrow> error + real" where
  "truediv a b = (if b = 0 then Inl ZeroDivisionError else Inr (a / b))"

text \<open>\<open>range(max_iter)\<close>: empty when \<open>max_iter \<le> 0\<close>.\<close>

definition py_range :: "int \<Rightarrow> int list" where
  "py_range n = map int [0..<nat n]"

text \<open>
  The loop of lines 36 to 72:
  \<^verbatim>\<open>
  for i in range(max_iter):
      fx = f(x_curr)
      dfx = df(x_curr)
      if abs(dfx) < 1e-12: break # Avoid division by zero
      x_next = x_curr - fx/dfx
      error = abs(x_next - x_curr)
      fig.add_trace(...)    # tangent segment from (x_curr, fx) to (x_next, 0)
      fig.add_trace(...)    # start marker at (x_curr, fx)
      iterations.append({'Iter': i+1, 'x_curr': x_curr, 'f(x)': fx, 'Error': error})
      print(...)            # i+1, x_curr, fx, error
      if error < tol:
          print(f"Converged to {x_next:.6f}")
          break
      x_curr = x_next
  \<close>
  It is modelled as a recursion over the indices still to come, from the current local
  variables; the result says how the loop was left and with which local variables.
\<close>

fun for_loop :: "real \<Rightarrow> real \<Rightarrow> int list \<Rightarrow> frame \<Rightarrow> error + (stop \<times> frame)" where
  "for_loop target_val tol [] s = Inr (Exhausted, s)"
| "for_loop target_val tol (i # rest) s =
     (let fx = f target_val (x_curr s);
          dfx = df (x_curr s)
      in if \<bar>dfx\<bar> < 1 / 10 ^ 12 then Inr (Singular, s)
         else
           (case truediv fx dfx of
              Inl e \<Rightarrow> Inl e
            | Inr q \<Rightarrow>
               (let x_next = x_curr s - q;
                    err = \<bar>x_next - x_curr s\<bar>;
                    s1 = s\<lparr>fig := fig s @ [Tangent (i + 1) (x_curr s) x_next fx,
                                         Start (i + 1) (x_curr s) fx],
                           iterations := iterations s @
                             [\<lparr>col_Iter = i + 1, col_x_curr = x_curr s,
                               col_fx = fx, col_Error = err\<rparr>],
                           out := out s @ [Row (i + 1) (x_curr s) fx err]\<rparr>
                in if err < tol
                   then Inr (Converged, s1\<lparr>out := out s1 @ [ConvergedTo x_next]\<rparr>)
                   else for_loop target_val tol rest (s1\<lparr>x_curr := x_next\<rparr>))))"

text \<open>The state in which the loop is entered.\<close>

definition init_frame :: "real \<Rightarrow> real \<Rightarrow> frame" where
  "init_frame target_val x0 =
     \<lparr>iterations = [], x_curr = x0,
      fig = [Parabola target_val x0, HLine],
      out = [Banner target_val x0, Header]\<rparr>"

text \<open>The function up to the end of its loop.\<close>

definition run_loop :: "real \<Rightarrow> real \<Rightarrow> real \<Rightarrow> int \<Rightarrow> error + (stop \<times> frame)" where
  "run_loop target_val x0 tol max_iter =
     for_loop target_val tol (py_range max_iter) (init_frame target_val x0)"

text \<open>
  The whole function: it returns the data frame built from \<open>iterations\<close>, having
  printed its lines and shown its figure.
\<close>

definition newton_raphson_interactive ::
  "real \<Rightarrow> real \<Rightarrow> real \<Rightarrow> int \<Rightarrow> world \<Rightarrow> error + (row list \<times> world)" where
  "newton_raphson_interactive target_val x0 tol max_iter w =
     (case run_loop target_val x0 tol max_iter of
        Inl e \<Rightarrow> Inl e
      | Inr (how, s) \<Rightarrow>
          Inr (iterations s,
               w\<lparr>console := console w @ out s,
                 shown := shown w @ [\<lparr>traces = fig s, final_root = x_curr s\<rparr>]\<rparr>))"

text \<open>The defaults \<open>tol=1e-6\<close> and \<open>max_iter=10\<close>.\<close>

definition default_tol :: real where
  "default_tol = 1 / 10 ^ 6"

definition default_max_iter :: int where
  "default_max_iter = 10"

text \<open>
  The driver: it calls the function on each of the four problems in turn, with the
  defaults, and ignores the tables.
\<close>

definition problems :: "(real \<times> real) list" where
  "problems = [(3, 2), (7, 3), (20, 4), (99, 10)]"

fun driver :: "(real \<times> real) list \<Rightarrow> world \<Rightarrow> error + world" where
  "driver [] w = Inr w"
| "driver ((N, guess) # ps) w =
     (case newton_raphson_interactive N guess default_tol default_max_iter w of
        Inl e \<Rightarrow> Inl e
      | Inr (t, w') \<Rightarrow> driver ps w')"

subsection \<open>Notions used to state and prove the properties\<close>

text \<open>The update of line 42, \<open>x_next = x_curr - fx/dfx\<close>, as a function of \<open>x_curr\<close>.\<close>

definition newton_next :: "real \<Rightarrow> real \<Rightarrow> real" where
  "newton_next target_val x = x - f target_val x / df x"

text \<open>The \<open>error\<close> of line 43 as a function of \<open>x_curr\<close>.\<close>

definition step_error :: "real \<Rightarrow> real \<Rightarrow> real" where
  "step_error target_val x = \<bar>newton_next target_val x - x\<bar>"

text \<open>The test of the guard of line 40.\<close>

definition singular :: "real \<Rightarrow> bool" where
  "singular x = (\<bar>df x\<bar> < 1 / 10 ^ 12)"

text \<open>The update applied \<open>k\<close> times, with no guard and no convergence test.\<close>

definition iterate :: "real \<Rightarrow> nat \<Rightarrow> real \<Rightarrow> real" where
  "iterate target_val k x = (newton_next target_val ^^ k) x"

text \<open>The dictionary appended in the pass of index \<open>i\<close> entered with \<open>x_curr = x\<close>.\<close>

definition mk_row :: "real \<Rightarrow> int \<Rightarrow> real \<Rightarrow> row" where
  "mk_row target_val i x =
     \<lparr>col_Iter = i + 1, col_x_curr = x, col_fx = f target_val x,
      col_Error = step_error target_val x\<rparr>"

text \<open>The local variables after the appends of the pass of index \<open>i\<close>.\<close>

definition pass :: "real \<Rightarrow> int \<Rightarrow> frame \<Rightarrow> frame" where
  "pass target_val i s =
     s\<lparr>fig := fig s @
         [Tangent (i + 1) (x_curr s) (newton_next target_val (x_curr s))
            (f target_val (x_curr s)),
          Start (i + 1) (x_curr s) (f target_val (x_curr s))],
       iterations := iterations s @ [mk_row target_val i (x_curr s)],
       out := out s @ [Row (i + 1) (x_curr s) (f target_val (x_curr s))
                         (step_error target_val (x_curr s))]\<rparr>"

text \<open>
  The shape of a run of the loop entered with \<open>x_curr = x\<close> over the indices \<open>idx\<close>:
  it completes \<open>n\<close> passes, appends \<open>rows\<close>, is left as \<open>how\<close> says and leaves
  \<open>x_curr = x_end\<close>.
\<close>

definition run_of ::
  "real \<Rightarrow> real \<Rightarrow> int list \<Rightarrow> real \<Rightarrow> nat \<Rightarrow> stop \<Rightarrow> row list \<Rightarrow> real \<Rightarrow> bool" where
  "run_of target_val tol idx x n how rows x_end \<longleftrightarrow>
     n \<le> length idx \<and>
     rows = map (\<lambda>k. mk_row target_val (idx ! k) (iterate target_val k x)) [0..<n] \<and>
     (\<forall>k<n. \<not> singular (iterate target_val k x)) \<and>
     (\<forall>k. Suc k < n \<longrightarrow> \<not> step_error target_val (iterate target_val k x) < tol) \<and>
     (case how of
        Singular \<Rightarrow> n < length idx \<and> singular (iterate target_val n x) \<and>
                    x_end = iterate target_val n x \<and>
                    (\<forall>k<n. \<not> step_error target_val (iterate target_val k x) < tol)
      | Converged \<Rightarrow> 0 < n \<and> step_error target_val (iterate target_val (n - 1) x) < tol \<and>
                    x_end = iterate target_val (n - 1) x
      | Exhausted \<Rightarrow> n = length idx \<and> x_end = iterate target_val n x \<and>
                    (\<forall>k<n. \<not> step_error target_val (iterate target_val k x) < tol))"


subsection \<open>Sample inputs and their tables\<close>

text \<open>A world with nothing printed or shown.\<close>

definition quiet :: world where
  "quiet = \<lparr>console = [], shown = []\<rparr>"

text \<open>The table of the call with \<open>target_val = 3\<close>, \<open>x0 = 2.0\<close> and the defaults.\<close>

definition sqrt3_table :: "row list" where
  "sqrt3_table =
     [\<lparr>col_Iter = 1, col_x_curr = 2, col_fx = 1, col_Error = 1 / 4\<rparr>,
      \<lparr>col_Iter = 2, col_x_curr = 7 / 4, col_fx = 1 / 16, col_Error = 1 / 56\<rparr>,
      \<lparr>col_Iter = 3, col_x_curr = 97 / 56, col_fx = 1 / 3136, col_Error = 1 / 10864\<rparr>,
      \<lparr>col_Iter = 4, col_x_curr = 18817 / 10864, col_fx = 1 / 118026496,
        col_Error = 1 / 408855776\<rparr>]"

text \<open>The table of the call with \<open>target_val = 99\<close>, \<open>x0 = 10.0\<close>, \<open>max_iter = 10\<close>.\<close>

definition sqrt99_table :: "row list" where
  "sqrt99_table =
     [\<lparr>col_Iter = 1, col_x_curr = 10, col_fx = 1, col_Error = 1 / 20\<rparr>,
      \<lparr>col_Iter = 2, col_x_curr = 199 / 20, col_fx = 1 / 400, col_Error = 1 / 7960\<rparr>,
      \<lparr>col_Iter = 3, col_x_curr = 79201 / 7960, col_fx = 1 / 63361600,
        col_Error = 1 / 1260879920\<rparr>]"

section \<open>The loop, pass by pass\<close>

lemma truediv_guard: "\<not> singular x \<Longrightarrow> truediv a (df x) = Inr (a / df x)"
  by (auto simp: truediv_def df_def singular_def)

text \<open>
  The second equation of \<open>for_loop\<close> with the division resolved: past the guard the
  divisor is not zero.
\<close>

lemma for_loop_Cons:
  "for_loop target_val tol (i # rest) s =
     (if singular (x_curr s) then Inr (Singular, s)
      else if step_error target_val (x_curr s) < tol
      then Inr (Converged,
             (pass target_val i s)\<lparr>out := out (pass target_val i s) @
                [ConvergedTo (newton_next target_val (x_curr s))]\<rparr>)
      else for_loop target_val tol rest
             ((pass target_val i s)\<lparr>x_curr := newton_next target_val (x_curr s)\<rparr>))"
proof (cases "singular (x_curr s)")
  case True
  then show ?thesis by (simp add: singular_def)
next
  case False
  then have "\<not> \<bar>df (x_curr s)\<bar> < 1 / 10 ^ 12" by (simp add: singular_def)
  then show ?thesis using False
    by (simp add: truediv_guard Let_def pass_def newton_next_def step_error_def mk_row_def)
qed

declare for_loop.simps(2) [simp del]

lemma iterate_0 [simp]: "iterate target_val 0 x = x"
  by (simp add: iterate_def)

lemma iterate_Suc: "iterate target_val (Suc k) x = iterate target_val k (newton_next target_val x)"
  by (simp add: iterate_def funpow_swap1)


lemma all_less_Suc: "(\<forall>k<Suc n. P k) \<longleftrightarrow> P 0 \<and> (\<forall>k<n. P (Suc k))"
  by (metis less_Suc_eq_0_disj Suc_less_eq zero_less_Suc)

lemma run_of_Nil: "run_of target_val tol [] x 0 Exhausted [] x"
  by (simp add: run_of_def)

lemma run_of_singular:
  "singular x \<Longrightarrow> run_of target_val tol (i # rest) x 0 Singular [] x"
  by (simp add: run_of_def)

lemma run_of_converged:
  "\<not> singular x \<Longrightarrow> step_error target_val x < tol \<Longrightarrow>
   run_of target_val tol (i # rest) x 1 Converged [mk_row target_val i x] x"
  by (simp add: run_of_def)

lemma run_of_continue:
  assumes ns: "\<not> singular x" and nc: "\<not> step_error target_val x < tol"
    and r: "run_of target_val tol rest (newton_next target_val x) n how rows x_end"
  shows "run_of target_val tol (i # rest) x (Suc n) how (mk_row target_val i x # rows) x_end"
proof -
  have rows: "mk_row target_val i x # rows =
      map (\<lambda>k. mk_row target_val ((i # rest) ! k) (iterate target_val k x)) [0..<Suc n]"
    using r by (simp add: run_of_def map_upt_Suc iterate_Suc del: upt_Suc)
  have len: "Suc n \<le> length (i # rest)" using r by (simp add: run_of_def)
  have sing: "\<forall>k<Suc n. \<not> singular (iterate target_val k x)"
    using r ns by (simp add: run_of_def all_less_Suc iterate_Suc)
  have errs: "\<forall>k. Suc k < Suc n \<longrightarrow> \<not> step_error target_val (iterate target_val k x) < tol"
  proof (intro allI impI)
    fix k assume "Suc k < Suc n"
    then show "\<not> step_error target_val (iterate target_val k x) < tol"
      using r nc by (cases k) (auto simp: run_of_def iterate_Suc)
  qed
  have all_errs:
    "(\<forall>k<n. \<not> step_error target_val (iterate target_val k (newton_next target_val x)) < tol)
      \<Longrightarrow> (\<forall>k<Suc n. \<not> step_error target_val (iterate target_val k x) < tol)"
    using nc by (simp add: all_less_Suc iterate_Suc)
  have tail: "case how of
        Singular \<Rightarrow> Suc n < length (i # rest) \<and> singular (iterate target_val (Suc n) x) \<and>
                    x_end = iterate target_val (Suc n) x \<and>
                    (\<forall>k<Suc n. \<not> step_error target_val (iterate target_val k x) < tol)
      | Converged \<Rightarrow> 0 < Suc n \<and>
                    step_error target_val (iterate target_val (Suc n - 1) x) < tol \<and>
                    x_end = iterate target_val (Suc n - 1) x
      | Exhausted \<Rightarrow> Suc n = length (i # rest) \<and> x_end = iterate target_val (Suc n) x \<and>
                    (\<forall>k<Suc n. \<not> step_error target_val (iterate target_val k x) < tol)"
  proof (cases how)
    case Singular
    then show ?thesis using r all_errs by (simp add: run_of_def iterate_Suc)
  next
    case Converged
    then have "0 < n" using r by (simp add: run_of_def)
    then obtain m where "n = Suc m" by (cases n) auto
    then show ?thesis using r Converged by (simp add: run_of_def iterate_Suc)
  next
    case Exhausted
    then show ?thesis using r all_errs by (simp add: run_of_def iterate_Suc)
  qed
  show ?thesis
    unfolding run_of_def using len rows sing errs tail by blast
qed

text \<open>
  The loop always returns, never raising \<open>ZeroDivisionError\<close>, and its run has the
  shape above.
\<close>

lemma for_loop_run_of:
  "\<exists>how s' n rows. for_loop target_val tol idx s = Inr (how, s') \<and>
     iterations s' = iterations s @ rows \<and>
     run_of target_val tol idx (x_curr s) n how rows (x_curr s')"
proof (induction idx arbitrary: s)
  case Nil
  show ?case using run_of_Nil by fastforce
next
  case (Cons i rest)
  consider (sing) "singular (x_curr s)"
    | (conv) "\<not> singular (x_curr s)" "step_error target_val (x_curr s) < tol"
    | (cont) "\<not> singular (x_curr s)" "\<not> step_error target_val (x_curr s) < tol"
    by blast
  then show ?case
  proof cases
    case sing
    then have "for_loop target_val tol (i # rest) s = Inr (Singular, s)"
      by (simp add: for_loop_Cons)
    then show ?thesis using run_of_singular [OF sing] by fastforce
  next
    case conv
    let ?s' = "(pass target_val i s)\<lparr>out := out (pass target_val i s) @
                 [ConvergedTo (newton_next target_val (x_curr s))]\<rparr>"
    have "for_loop target_val tol (i # rest) s = Inr (Converged, ?s')"
      using conv by (simp add: for_loop_Cons)
    moreover have "iterations ?s' = iterations s @ [mk_row target_val i (x_curr s)]"
      by (simp add: pass_def)
    moreover have "x_curr ?s' = x_curr s" by (simp add: pass_def)
    ultimately show ?thesis using run_of_converged [OF conv] by metis
  next
    case cont
    let ?s2 = "(pass target_val i s)\<lparr>x_curr := newton_next target_val (x_curr s)\<rparr>"
    have eq: "for_loop target_val tol (i # rest) s = for_loop target_val tol rest ?s2"
      using cont by (simp add: for_loop_Cons)
    have x2: "x_curr ?s2 = newton_next target_val (x_curr s)" by simp
    have it2: "iterations ?s2 = iterations s @ [mk_row target_val i (x_curr s)]"
      by (simp add: pass_def)
    from Cons.IH [of ?s2] obtain how s' n rows where
      run: "for_loop target_val tol rest ?s2 = Inr (how, s')"
      and it: "iterations s' = iterations ?s2 @ rows"
      and ro: "run_of target_val tol rest (x_curr ?s2) n how rows (x_curr s')"
      by blast
    have "run_of target_val tol (i # rest) (x_curr s) (Suc n) how
            (mk_row target_val i (x_curr s) # rows) (x_curr s')"
      using run_of_continue [OF cont] ro unfolding x2 by blast
    moreover have "iterations s' = iterations s @ (mk_row target_val i (x_curr s) # rows)"
      using it it2 by simp
    ultimately show ?thesis using eq run by metis
  qed
qed

lemma for_loop_shape:
  assumes "for_loop target_val tol idx s = Inr (how, s')"
  shows "\<exists>n rows. iterations s' = iterations s @ rows \<and>
           run_of target_val tol idx (x_curr s) n how rows (x_curr s')"
proof -
  from for_loop_run_of [of target_val tol idx s]
  obtain how1 where "\<exists>s1 n rows. for_loop target_val tol idx s = Inr (how1, s1) \<and>
     iterations s1 = iterations s @ rows \<and>
     run_of target_val tol idx (x_curr s) n how1 rows (x_curr s1)" ..
  then obtain s1 where "\<exists>n rows. for_loop target_val tol idx s = Inr (how1, s1) \<and>
     iterations s1 = iterations s @ rows \<and>
     run_of target_val tol idx (x_curr s) n how1 rows (x_curr s1)" ..
  then obtain n where "\<exists>rows. for_loop target_val tol idx s = Inr (how1, s1) \<and>
     iterations s1 = iterations s @ rows \<and>
     run_of target_val tol idx (x_curr s) n how1 rows (x_curr s1)" ..
  then obtain rows where c: "for_loop target_val tol idx s = Inr (how1, s1) \<and>
     iterations s1 = iterations s @ rows \<and>
     run_of target_val tol idx (x_curr s) n how1 rows (x_curr s1)" ..
  from c assms have "how1 = how" and "s1 = s'" by simp_all
  with c have "iterations s' = iterations s @ rows \<and>
           run_of target_val tol idx (x_curr s) n how rows (x_curr s')" by simp
  then show ?thesis by (intro exI)
qed

lemma for_loop_prefix:
  assumes "for_loop target_val tol idx s = Inr (how, s')"
  shows "prefix (iterations s) (iterations s')"
  using for_loop_shape [OF assms] by auto


section \<open>The whole call\<close>

lemma length_py_range [simp]: "length (py_range m) = nat m"
  by (simp add: py_range_def)

lemma nth_py_range: "k < nat m \<Longrightarrow> py_range m ! k = int k"
  by (simp add: py_range_def)

lemma py_range_nonpos: "m \<le> 0 \<Longrightarrow> py_range m = []"
  by (simp add: py_range_def)

lemma py_range_pos: "0 < m \<Longrightarrow> py_range m = 0 # map int [1..<nat m]"
  by (simp add: py_range_def upt_conv_Cons)

lemma run_loop_returns: "\<exists>how s. run_loop target_val x0 tol max_iter = Inr (how, s)"
proof -
  from for_loop_run_of [of target_val tol "py_range max_iter" "init_frame target_val x0"]
  show ?thesis unfolding run_loop_def by blast
qed

lemma run_loop_returnsE:
  obtains how s where "run_loop target_val x0 tol max_iter = Inr (how, s)"
  using run_loop_returns by blast

text \<open>The run of the whole loop, in closed form.\<close>

lemma run_loop_shape:
  assumes "run_loop target_val x0 tol max_iter = Inr (how, s)"
  shows "run_of target_val tol (py_range max_iter) x0 (length (iterations s)) how
           (iterations s) (x_curr s)"
proof -
  from for_loop_shape [OF assms [unfolded run_loop_def]]
  obtain n where "\<exists>rows. iterations s = iterations (init_frame target_val x0) @ rows \<and>
           run_of target_val tol (py_range max_iter) (x_curr (init_frame target_val x0))
             n how rows (x_curr s)" ..
  then obtain rows where
    c: "iterations s = iterations (init_frame target_val x0) @ rows \<and>
           run_of target_val tol (py_range max_iter) (x_curr (init_frame target_val x0))
             n how rows (x_curr s)" ..
  have rows: "iterations s = rows" using c by (simp add: init_frame_def)
  have ro: "run_of target_val tol (py_range max_iter) x0 n how rows (x_curr s)"
    using c by (simp add: init_frame_def)
  then have "length rows = n" by (simp add: run_of_def)
  then show ?thesis using ro rows by simp
qed

lemma run_loop_length:
  assumes "run_loop target_val x0 tol max_iter = Inr (how, s)"
  shows "length (iterations s) \<le> nat max_iter"
  using run_loop_shape [OF assms] by (simp add: run_of_def)

lemma run_loop_rows:
  assumes "run_loop target_val x0 tol max_iter = Inr (how, s)"
  shows "iterations s =
           map (\<lambda>k. mk_row target_val (int k) (iterate target_val k x0))
             [0..<length (iterations s)]"
proof -
  let ?n = "length (iterations s)"
  have n: "?n \<le> nat max_iter" by (rule run_loop_length [OF assms])
  have "iterations s =
      map (\<lambda>k. mk_row target_val (py_range max_iter ! k) (iterate target_val k x0)) [0..<?n]"
    using run_loop_shape [OF assms] unfolding run_of_def by blast
  also have "\<dots> = map (\<lambda>k. mk_row target_val (int k) (iterate target_val k x0)) [0..<?n]"
    using n by (simp add: nth_py_range)
  finally show ?thesis .
qed




lemma singular_0: "singular 0"
  by (simp add: singular_def df_def)

lemma map_Iter_rows:
  "map col_Iter (map (\<lambda>k. mk_row target_val (int k) (g k)) [0..<n]) = map int [1..<Suc n]"
proof -
  have "map int [1..<Suc n] = map int (map Suc [0..<n])"
    by (simp only: map_Suc_upt One_nat_def)
  then show ?thesis by (simp add: mk_row_def comp_def add.commute)
qed

lemma solver_result:
  assumes "newton_raphson_interactive target_val x0 tol max_iter w = Inr (t, w')"
  shows "\<exists>how s. run_loop target_val x0 tol max_iter = Inr (how, s) \<and> t = iterations s \<and>
           w' = w\<lparr>console := console w @ out s,
                  shown := shown w @ [\<lparr>traces = fig s, final_root = x_curr s\<rparr>]\<rparr>"
  using assms unfolding newton_raphson_interactive_def
  by (auto split: sum.splits prod.splits)

lemma solver_resultE:
  assumes "newton_raphson_interactive target_val x0 tol max_iter w = Inr (t, w')"
  obtains how s where "run_loop target_val x0 tol max_iter = Inr (how, s)"
    and "t = iterations s"
    and "w' = w\<lparr>console := console w @ out s,
                  shown := shown w @ [\<lparr>traces = fig s, final_root = x_curr s\<rparr>]\<rparr>"
  using solver_result [OF assms] by blast

lemma solver_of_run:
  assumes "run_loop target_val x0 tol max_iter = Inr (how, s)"
  shows "newton_raphson_interactive target_val x0 tol max_iter w =
           Inr (iterations s,
                w\<lparr>console := console w @ out s,
                  shown := shown w @ [\<lparr>traces = fig s, final_root = x_curr s\<rparr>]\<rparr>)"
  using assms unfolding newton_raphson_interactive_def by simp

text \<open>The driver runs through any list of problems without an exception.\<close>

lemma driver_returns: "\<exists>w'. driver ps w = Inr w'"
proof (induction ps arbitrary: w)
  case Nil
  show ?case by simp
next
  case (Cons p ps)
  obtain N guess where p: "p = (N, guess)" by (cases p)
  obtain how s where run: "run_loop N guess default_tol default_max_iter = Inr (how, s)"
    by (rule run_loop_returnsE)
  show ?case unfolding p using solver_of_run [OF run, of w] Cons.IH by simp
qed




section \<open>The update in exact arithmetic\<close>




















section \<open>Concrete runs\<close>

lemma range_10: "py_range 10 = [0, 1, 2, 3, 4, 5, 6, 7, 8, 9]"
  unfolding py_range_def by (simp add: upt_rec)

lemmas eval_defs = init_frame_def for_loop_Cons singular_def step_error_def newton_next_def
  f_def df_def pass_def mk_row_def power2_eq_square

lemma sqrt3_run:
  "run_loop 3 2 default_tol default_max_iter =
     Inr (Converged,
       \<lparr>iterations = sqrt3_table,
        x_curr = 18817 / 10864,
        fig = [Parabola 3 2, HLine, Tangent 1 2 (7 / 4) 1, Start 1 2 1,
               Tangent 2 (7 / 4) (97 / 56) (1 / 16), Start 2 (7 / 4) (1 / 16),
               Tangent 3 (97 / 56) (18817 / 10864) (1 / 3136), Start 3 (97 / 56) (1 / 3136),
               Tangent 4 (18817 / 10864) (708158977 / 408855776) (1 / 118026496),
               Start 4 (18817 / 10864) (1 / 118026496)],
        out = [Banner 3 2, Header, Row 1 2 1 (1 / 4), Row 2 (7 / 4) (1 / 16) (1 / 56),
               Row 3 (97 / 56) (1 / 3136) (1 / 10864),
               Row 4 (18817 / 10864) (1 / 118026496) (1 / 408855776),
               ConvergedTo (708158977 / 408855776)]\<rparr>)"
  unfolding run_loop_def default_max_iter_def range_10 default_tol_def sqrt3_table_def
  by (simp add: eval_defs)

lemma sqrt99_run:
  "run_loop 99 10 default_tol 10 =
     Inr (Converged,
       \<lparr>iterations = sqrt99_table,
        x_curr = 79201 / 7960,
        fig = [Parabola 99 10, HLine, Tangent 1 10 (199 / 20) 1, Start 1 10 1,
               Tangent 2 (199 / 20) (79201 / 7960) (1 / 400), Start 2 (199 / 20) (1 / 400),
               Tangent 3 (79201 / 7960) (12545596801 / 1260879920) (1 / 63361600),
               Start 3 (79201 / 7960) (1 / 63361600)],
        out = [Banner 99 10, Header, Row 1 10 1 (1 / 20), Row 2 (199 / 20) (1 / 400) (1 / 7960),
               Row 3 (79201 / 7960) (1 / 63361600) (1 / 1260879920),
               ConvergedTo (12545596801 / 1260879920)]\<rparr>)"
  unfolding run_loop_def range_10 default_tol_def sqrt99_table_def
  by (simp add: eval_defs)

lemma sqrt3_call:
  "\<exists>w'. newton_raphson_interactive 3 2 default_tol default_max_iter w = Inr (sqrt3_table, w')"
  using solver_of_run [OF sqrt3_run] by simp

text \<open>The same call from the middle of its loop: one row appended, two indices left.\<close>

lemma sqrt3_mid_run:
  "for_loop 3 default_tol [1, 2]
     \<lparr>iterations = take 1 sqrt3_table, x_curr = 7 / 4, fig = [], out = []\<rparr> =
   Inr (Exhausted,
     \<lparr>iterations = take 3 sqrt3_table,
      x_curr = 18817 / 10864,
      fig = [Tangent 2 (7 / 4) (97 / 56) (1 / 16), Start 2 (7 / 4) (1 / 16),
             Tangent 3 (97 / 56) (18817 / 10864) (1 / 3136), Start 3 (97 / 56) (1 / 3136)],
      out = [Row 2 (7 / 4) (1 / 16) (1 / 56), Row 3 (97 / 56) (1 / 3136) (1 / 10864)]\<rparr>)"
  unfolding default_tol_def sqrt3_table_def
  by (simp add: eval_defs)


section \<open>The claims\<close>

text \<open>
  Claim C1. For the call with \<open>target_val = 3\<close>, \<open>x0 = 2.0\<close> and the default
  \<open>tol\<close> and \<open>max_iter\<close>, the first row of the returned table has index 1,
  \<open>x_curr = 2\<close>, \<open>f(x) = 1\<close> and \<open>Error = 1/4\<close>; the \<open>x_next\<close> of that pass is
  \<open>7/4\<close>, the \<open>x_curr\<close> of the second row. All these values are dyadic, so the
  floating-point computation is exact on them.
\<close>

theorem first_record_sqrt3:
  "\<exists>r2 rest w'.
     newton_raphson_interactive 3 2 default_tol default_max_iter w =
       Inr (\<lparr>col_Iter = 1, col_x_curr = 2, col_fx = 1, col_Error = 1 / 4\<rparr> # r2 # rest, w') \<and>
     col_x_curr r2 = 7 / 4"
  using solver_of_run [OF sqrt3_run, of w] by (simp add: sqrt3_table_def)





text \<open>
  Claim C4. For every \<open>target_val\<close>, \<open>tol\<close> and \<open>max_iter\<close>, the call with
  \<open>x0 = 0\<close> returns an empty table, having printed only the banner and the header; the
  loop is left at once, by the guard when \<open>max_iter > 0\<close> and with no pass at all
  otherwise.
\<close>

theorem zero_guess_no_records:
  "newton_raphson_interactive target_val 0 tol max_iter w =
     Inr ([], w\<lparr>console := console w @ [Banner target_val 0, Header],
                shown := shown w @
                  [\<lparr>traces = [Parabola target_val 0, HLine], final_root = 0\<rparr>]\<rparr>) \<and>
   run_loop target_val 0 tol max_iter =
     Inr (if 0 < max_iter then Singular else Exhausted, init_frame target_val 0)"
proof -
  have run: "run_loop target_val 0 tol max_iter =
     Inr (if 0 < max_iter then Singular else Exhausted, init_frame target_val 0)"
  proof (cases "0 < max_iter")
    case True
    have "x_curr (init_frame target_val 0) = 0" by (simp add: init_frame_def)
    then show ?thesis using True singular_0
      by (simp add: run_loop_def py_range_pos for_loop_Cons)
  next
    case False
    then show ?thesis by (simp add: run_loop_def py_range_nonpos)
  qed
  show ?thesis using solver_of_run [OF run, of w] run by (simp add: init_frame_def)
qed

text \<open>
  Claim C5. Every returned table has at most \<open>max_iter\<close> rows (none when
  \<open>max_iter \<le> 0\<close>, where \<open>range(max_iter)\<close> is empty), and its \<open>Iter\<close> column is
  \<open>1, 2, \<dots>, n\<close> in order, \<open>n\<close> being the number of rows. The loop only appends:
  from any point of the loop on, the rows already in \<open>iterations\<close> stay, unchanged, a
  prefix of the final list.
\<close>

theorem table_indices:
  "(newton_raphson_interactive target_val x0 tol max_iter w = Inr (t, w') \<longrightarrow>
      length t \<le> nat max_iter \<and> map col_Iter t = map int [1..<Suc (length t)]) \<and>
   (for_loop target_val tol idx s = Inr (how, s') \<longrightarrow>
      prefix (iterations s) (iterations s'))"
proof (intro conjI impI)
  assume a: "newton_raphson_interactive target_val x0 tol max_iter w = Inr (t, w')"
  obtain how1 s1 where run: "run_loop target_val x0 tol max_iter = Inr (how1, s1)"
    and t: "t = iterations s1"
    and w: "w' = w\<lparr>console := console w @ out s1,
                  shown := shown w @ [\<lparr>traces = fig s1, final_root = x_curr s1\<rparr>]\<rparr>"
    by (rule solver_resultE [OF a])
  show "length t \<le> nat max_iter" using run_loop_length [OF run] t by simp
  have "map col_Iter t =
     map col_Iter (map (\<lambda>k. mk_row target_val (int k) (iterate target_val k x0)) [0..<length t])"
    using run_loop_rows [OF run] t by simp
  then show "map col_Iter t = map int [1..<Suc (length t)]"
    by (simp only: map_Iter_rows)
next
  assume "for_loop target_val tol idx s = Inr (how, s')"
  then show "prefix (iterations s) (iterations s')" by (rule for_loop_prefix)
qed

theorem table_indices_witness:
  "((\<exists>w'. newton_raphson_interactive 3 2 default_tol default_max_iter quiet =
             Inr (sqrt3_table, w')) \<and>
      length sqrt3_table \<le> nat default_max_iter \<and>
      map col_Iter sqrt3_table = map int [1..<Suc (length sqrt3_table)]) \<and>
   ((\<exists>how s'. for_loop 3 default_tol [1, 2]
                 \<lparr>iterations = take 1 sqrt3_table, x_curr = 7 / 4, fig = [], out = []\<rparr> =
                Inr (how, s') \<and> iterations s' = take 3 sqrt3_table) \<and>
      prefix (take 1 sqrt3_table) (take 3 sqrt3_table))"
proof -
  obtain w' where
    call: "newton_raphson_interactive 3 2 default_tol default_max_iter quiet =
             Inr (sqrt3_table, w')"
    using sqrt3_call by blast
  let ?s = "\<lparr>iterations = take 1 sqrt3_table, x_curr = 7 / 4, fig = [], out = []\<rparr>"
  obtain s' where
    loop: "for_loop 3 default_tol [1, 2] ?s = Inr (Exhausted, s')"
    and it: "iterations s' = take 3 sqrt3_table"
    using sqrt3_mid_run by simp
  from table_indices [of 3 2 default_tol default_max_iter quiet sqrt3_table w'
      "[1, 2]" ?s Exhausted s']
  have "length sqrt3_table \<le> nat default_max_iter \<and>
        map col_Iter sqrt3_table = map int [1..<Suc (length sqrt3_table)]"
    and "prefix (take 1 sqrt3_table) (take 3 sqrt3_table)"
    using call loop it by simp_all
  then show ?thesis using call loop it by blast
qed




text \<open>
  Claim C8. The call with \<open>target_val = 99\<close>, \<open>x0 = 10.0\<close>, \<open>max_iter = 10\<close> and
  the default tolerance converges: the table has fewer than 10 rows (three), the last
  \<open>Error\<close> is below \<open>1e-6\<close>, and the value printed as converged lies in
  \<open>[9.9498743, 9.9498744)\<close>, within \<open>1e-9\<close> of \<open>sqrt 99\<close>. The arithmetic is exact here;
  the margins of the three comparisons with \<open>tol\<close> (\<open>5e-2\<close>, \<open>1.3e-4\<close> and
  \<open>7.9e-10\<close> against \<open>1e-6\<close>) are far above double-precision rounding.
\<close>

theorem sqrt99_converges:
  "\<exists>t w' v.
     newton_raphson_interactive 99 10 default_tol 10 w = Inr (t, w') \<and>
     length t < 10 \<and>
     col_Error (last t) < 1 / 10 ^ 6 \<and>
     last (console w') = ConvergedTo v \<and>
     99498743 / 10 ^ 7 \<le> v \<and> v < 99498744 / 10 ^ 7 \<and>
     \<bar>v - sqrt 99\<bar> < 1 / 10 ^ 9"
proof -
  let ?v = "12545596801 / 1260879920 :: real"
  have lo: "?v - 1 / 10 ^ 10 \<le> sqrt 99"
    by (rule real_le_rsqrt) (simp add: power2_eq_square)
  have hi: "sqrt 99 \<le> ?v"
    by (rule real_le_lsqrt) (simp_all add: power2_eq_square)
  have "\<bar>?v - sqrt 99\<bar> \<le> 1 / 10 ^ 10"
    using lo hi by linarith
  then have close: "\<bar>?v - sqrt 99\<bar> < 1 / 10 ^ 9"
    by simp
  have bounds: "99498743 / 10 ^ 7 \<le> ?v \<and> ?v < 99498744 / 10 ^ 7"
    by simp
  let ?w' = "w\<lparr>console := console w @
               [Banner 99 10, Header, Row 1 10 1 (1 / 20), Row 2 (199 / 20) (1 / 400) (1 / 7960),
                Row 3 (79201 / 7960) (1 / 63361600) (1 / 1260879920), ConvergedTo ?v],
             shown := shown w @
               [\<lparr>traces =
                  [Parabola 99 10, HLine, Tangent 1 10 (199 / 20) 1, Start 1 10 1,
                   Tangent 2 (199 / 20) (79201 / 7960) (1 / 400), Start 2 (199 / 20) (1 / 400),
                   Tangent 3 (79201 / 7960) ?v (1 / 63361600),
                   Start 3 (79201 / 7960) (1 / 63361600)],
                 final_root = 79201 / 7960\<rparr>]\<rparr>"
  have call: "newton_raphson_interactive 99 10 default_tol 10 w = Inr (sqrt99_table, ?w')"
    using solver_of_run [OF sqrt99_run, of w] by simp
  have tbl: "length sqrt99_table < 10 \<and> col_Error (last sqrt99_table) < 1 / 10 ^ 6"
    by (simp add: sqrt99_table_def)
  have pr: "last (console ?w') = ConvergedTo ?v" by simp
  show ?thesis
    using call tbl pr bounds close
    by (intro exI [of _ sqrt99_table] exI [of _ ?w'] exI [of _ ?v]) blast
qed







end
